theory Spec2Isabelle
  imports Complex_Main
begin

section \<open>Values of the language runtime\<close>

text \<open>
  The services under \<open>src/services\<close> work on the rows that the CSV parser delivers
  (\<open>dynamicTyping: true\<close>): plain objects whose own properties hold strings, numbers,
  booleans or \<open>null\<close>.  Reading \<open>row[h]\<close> looks at the row's own properties first
  and then at those every plain object inherits from \<open>Object.prototype\<close>: the name
  \<open>__proto__\<close> reads as that prototype object, the names of its methods read as
  functions, and only a name that is neither owned nor inherited reads as \<open>undefined\<close>.

  A number is an IEEE double.  A finite double is represented by its exact value, a real number;
  the zero with a sign bit, the two infinities and NaN are values of their own.  The
  operations below follow IEEE 754 on zeros, infinities and NaN; on two finite non-zero
  operands they return the exact result (the rounding to 53 bits is not part of
  the model).
\<close>

datatype num = Fin real | NegZero | PInf | NInf | NaN

datatype jsval =
  Undefined | Null | Bool bool | Num num | Str string
  | ObjectPrototype \<comment> \<open>the object \<open>Object.prototype\<close>\<close>
  | Function string \<comment> \<open>the method of \<open>Object.prototype\<close> found under this name\<close>

type_synonym row = "string \<rightharpoonup> jsval"

definition objectPrototypeMethods :: "string list" where
  "objectPrototypeMethods =
     [''constructor'', ''hasOwnProperty'', ''isPrototypeOf'', ''propertyIsEnumerable'',
      ''toLocaleString'', ''toString'', ''valueOf'', ''__defineGetter__'',
      ''__defineSetter__'', ''__lookupGetter__'', ''__lookupSetter__'']"

definition inherited :: "string \<Rightarrow> jsval" where
  \<comment> \<open>what a plain object with no own property \<open>h\<close> gives for \<open>obj[h]\<close>\<close>
  "inherited h =
     (if h = ''__proto__'' then ObjectPrototype
      else if h \<in> set objectPrototypeMethods then Function h
      else Undefined)"

definition field :: "row \<Rightarrow> string \<Rightarrow> jsval" where
  \<comment> \<open>\<open>row[h]\<close>\<close>
  "field r h = (case r h of None \<Rightarrow> inherited h | Some v \<Rightarrow> v)"

fun is_zero :: "num \<Rightarrow> bool" where
  "is_zero (Fin r) = (r = 0)"
| "is_zero NegZero = True"
| "is_zero _ = False"

fun is_inf :: "num \<Rightarrow> bool" where
  "is_inf PInf = True"
| "is_inf NInf = True"
| "is_inf _ = False"

fun negative :: "num \<Rightarrow> bool" where
  \<comment> \<open>the sign bit\<close>
  "negative (Fin r) = (r < 0)"
| "negative NegZero = True"
| "negative NInf = True"
| "negative _ = False"

fun val :: "num \<Rightarrow> real" where
  "val (Fin r) = r"
| "val _ = 0"

definition inf_of :: "bool \<Rightarrow> num" where
  "inf_of neg = (if neg then NInf else PInf)"

definition zero_of :: "bool \<Rightarrow> num" where
  "zero_of neg = (if neg then NegZero else Fin 0)"

fun js_neg :: "num \<Rightarrow> num" where
  "js_neg (Fin r) = (if r = 0 then NegZero else Fin (- r))"
| "js_neg NegZero = Fin 0"
| "js_neg PInf = NInf"
| "js_neg NInf = PInf"
| "js_neg NaN = NaN"

definition js_add :: "num \<Rightarrow> num \<Rightarrow> num" where
  "js_add a b =
     (if a = NaN \<or> b = NaN then NaN
      else if is_inf a then (if is_inf b \<and> a \<noteq> b then NaN else a)
      else if is_inf b then b
      else if a = NegZero \<and> b = NegZero then NegZero
      else Fin (val a + val b))"

definition js_sub :: "num \<Rightarrow> num \<Rightarrow> num" where
  "js_sub a b = js_add a (js_neg b)"

definition js_mul :: "num \<Rightarrow> num \<Rightarrow> num" where
  "js_mul a b =
     (if a = NaN \<or> b = NaN then NaN
      else if is_inf a \<or> is_inf b then
        (if is_zero a \<or> is_zero b then NaN else inf_of (negative a \<noteq> negative b))
      else if is_zero a \<or> is_zero b then zero_of (negative a \<noteq> negative b)
      else Fin (val a * val b))"

definition js_div :: "num \<Rightarrow> num \<Rightarrow> num" where
  "js_div a b =
     (if a = NaN \<or> b = NaN then NaN
      else if is_inf a then (if is_inf b then NaN else inf_of (negative a \<noteq> negative b))
      else if is_inf b then zero_of (negative a \<noteq> negative b)
      else if is_zero b then
        (if is_zero a then NaN else inf_of (negative a \<noteq> negative b))
      else if is_zero a then zero_of (negative a \<noteq> negative b)
      else Fin (val a / val b))"

fun js_lt :: "num \<Rightarrow> num \<Rightarrow> bool" where
  \<comment> \<open>\<open>a < b\<close>; \<open>a > b\<close> is \<open>js_lt b a\<close>\<close>
  "js_lt NaN _ = False"
| "js_lt _ NaN = False"
| "js_lt PInf _ = False"
| "js_lt _ NInf = False"
| "js_lt NInf _ = True"
| "js_lt _ PInf = True"
| "js_lt a b = (val a < val b)"

definition js_ge :: "num \<Rightarrow> num \<Rightarrow> bool" where
  \<comment> \<open>\<open>a >= b\<close>\<close>
  "js_ge a b = (a \<noteq> NaN \<and> b \<noteq> NaN \<and> \<not> js_lt a b)"

fun sign_of :: "num \<Rightarrow> int" where
  \<comment> \<open>how \<open>Array.prototype.sort\<close> reads the number a comparator returns: NaN counts as 0\<close>
  "sign_of (Fin r) = (if r < 0 then - 1 else if r = 0 then 0 else 1)"
| "sign_of NegZero = 0"
| "sign_of PInf = 1"
| "sign_of NInf = - 1"
| "sign_of NaN = 0"

subsection \<open>Strings\<close>

definition toLowerCase_char :: "char \<Rightarrow> char" where
  \<comment> \<open>strings are byte strings here: the letters A to Z are mapped and every other byte
      is kept, so a cased letter outside ASCII is not lower-cased by the model\<close>
  "toLowerCase_char c =
     (case map_of (zip ''ABCDEFGHIJKLMNOPQRSTUVWXYZ'' ''abcdefghijklmnopqrstuvwxyz'') c of
        Some l \<Rightarrow> l
      | None \<Rightarrow> c)"

definition toLowerCase :: "string \<Rightarrow> string" where
  "toLowerCase s = map toLowerCase_char s"

fun str_includes :: "string \<Rightarrow> string \<Rightarrow> bool" where
  \<comment> \<open>\<open>s.includes(t)\<close>: \<open>t\<close> occurs in \<open>s\<close> as a substring\<close>
  "str_includes [] t = (t = [])"
| "str_includes (c # s) t = (take (length t) (c # s) = t \<or> str_includes s t)"

fun join :: "string \<Rightarrow> string list \<Rightarrow> string" where
  "join sep [] = []"
| "join sep [x] = x"
| "join sep (x # y # ys) = x @ sep @ join sep (y # ys)"

definition digit :: "nat \<Rightarrow> char" where
  "digit d = ''0123456789'' ! d"

fun show_nat :: "nat \<Rightarrow> string" where
  "show_nat n = (if n < 10 then [digit n] else show_nat (n div 10) @ [digit (n mod 10)])"

declare show_nat.simps [simp del]

definition show_int :: "int \<Rightarrow> string" where
  "show_int i = (if i < 0 then ''-'' @ show_nat (nat (- i)) else show_nat (nat i))"

text \<open>
  What the runtime decides and the repository does not: the decimal rendering of a finite
  number that is not an integer of magnitude below \<open>2^53\<close> (the shortest digits that read
  back as the same double), the source text a built-in function prints as, and the
  collation behind \<open>localeCompare\<close>.
\<close>

record runtime =
  shortestDigits :: "real \<Rightarrow> string"
  functionToString :: "string \<Rightarrow> string"
  localeCompare :: "string \<Rightarrow> string \<Rightarrow> int"

definition Number_toString :: "runtime \<Rightarrow> num \<Rightarrow> string" where
  "Number_toString rt n =
     (case n of
        NaN \<Rightarrow> ''NaN''
      | PInf \<Rightarrow> ''Infinity''
      | NInf \<Rightarrow> ''-Infinity''
      | NegZero \<Rightarrow> ''0''
      | Fin r \<Rightarrow>
          if of_int \<lfloor>r\<rfloor> = r \<and> \<bar>r\<bar> < 2 ^ 53 then show_int \<lfloor>r\<rfloor>
          else shortestDigits rt r)"

definition String_js :: "runtime \<Rightarrow> jsval \<Rightarrow> string" where
  \<comment> \<open>\<open>String(v)\<close>\<close>
  "String_js rt v =
     (case v of
        Undefined \<Rightarrow> ''undefined''
      | Null \<Rightarrow> ''null''
      | Bool b \<Rightarrow> (if b then ''true'' else ''false'')
      | Num n \<Rightarrow> Number_toString rt n
      | Str s \<Rightarrow> s
      | ObjectPrototype \<Rightarrow> ''[object Object]''
      | Function f \<Rightarrow> functionToString rt f)"

definition truthy :: "jsval \<Rightarrow> bool" where
  "truthy v =
     (case v of
        Undefined \<Rightarrow> False
      | Null \<Rightarrow> False
      | Bool b \<Rightarrow> b
      | Num n \<Rightarrow> \<not> is_zero n \<and> n \<noteq> NaN
      | Str s \<Rightarrow> s \<noteq> []
      | ObjectPrototype \<Rightarrow> True
      | Function _ \<Rightarrow> True)"

definition nullish :: "jsval \<Rightarrow> bool" where
  \<comment> \<open>\<open>v == null\<close>\<close>
  "nullish v = (v = Null \<or> v = Undefined)"

definition typeof :: "jsval \<Rightarrow> string" where
  "typeof v =
     (case v of
        Undefined \<Rightarrow> ''undefined''
      | Null \<Rightarrow> ''object''
      | Bool _ \<Rightarrow> ''boolean''
      | Num _ \<Rightarrow> ''number''
      | Str _ \<Rightarrow> ''string''
      | ObjectPrototype \<Rightarrow> ''object''
      | Function _ \<Rightarrow> ''function'')"

definition is_number :: "jsval \<Rightarrow> bool" where
  "is_number v = (typeof v = ''number'')"

definition is_string :: "jsval \<Rightarrow> bool" where
  "is_string v = (typeof v = ''string'')"

fun num_of :: "jsval \<Rightarrow> num" where
  \<comment> \<open>the number that a value of type number is\<close>
  "num_of (Num n) = n"
| "num_of _ = NaN"

definition fixed_digits :: "nat \<Rightarrow> real \<Rightarrow> string" where
  \<comment> \<open>the decimal with \<open>d\<close> fraction digits nearest to \<open>r \<ge> 0\<close>, a tie going up\<close>
  "fixed_digits d r =
     (let n = nat \<lfloor>r * 10 ^ d + 1 / 2\<rfloor>;
          ds = show_nat n;
          ds' = replicate (Suc d - length ds) (CHR ''0'') @ ds;
          k = length ds' - d
      in take k ds' @ (if d = 0 then [] else ''.'' @ drop k ds'))"

definition toFixed :: "runtime \<Rightarrow> nat \<Rightarrow> num \<Rightarrow> string" where
  \<comment> \<open>\<open>x.toFixed(d)\<close> for \<open>d \<le> 100\<close>\<close>
  "toFixed rt d x =
     (case x of
        Fin r \<Rightarrow>
          if \<bar>r\<bar> \<ge> 10 ^ 21 then Number_toString rt x
          else (if r < 0 then ''-'' else []) @ fixed_digits d \<bar>r\<bar>
      | NegZero \<Rightarrow> fixed_digits d 0
      | _ \<Rightarrow> Number_toString rt x)"

subsection \<open>Arrays\<close>


fun insort_by :: "('a \<Rightarrow> 'a \<Rightarrow> int) \<Rightarrow> 'a \<Rightarrow> 'a list \<Rightarrow> 'a list" where
  "insort_by c x [] = [x]"
| "insort_by c x (y # ys) = (if c x y \<le> 0 then x # y # ys else y # insort_by c x ys)"

definition sort_by :: "('a \<Rightarrow> 'a \<Rightarrow> int) \<Rightarrow> 'a list \<Rightarrow> 'a list" where
  "sort_by c xs = foldr (insort_by c) xs []"

definition slice0 :: "num \<Rightarrow> 'a list \<Rightarrow> 'a list" where
  \<comment> \<open>\<open>xs.slice(0, e)\<close>: \<open>e\<close> is truncated towards zero to an integer \<open>k\<close>; a negative
      \<open>k\<close> counts from the end, and \<open>k = 0\<close> gives the empty list\<close>
  "slice0 e xs =
     (case e of
        Fin r \<Rightarrow>
          if r < 0 then
            (if \<lfloor>- r\<rfloor> = 0 then [] else take (length xs - nat \<lfloor>- r\<rfloor>) xs)
          else take (nat \<lfloor>r\<rfloor>) xs
      | PInf \<Rightarrow> xs
      | _ \<Rightarrow> [])"

fun numbers :: "jsval list \<Rightarrow> num list" where
  \<comment> \<open>\<open>.filter((v) => typeof v === "number")\<close>\<close>
  "numbers [] = []"
| "numbers (Num n # vs) = n # numbers vs"
| "numbers (_ # vs) = numbers vs"

section \<open>The CSV data service\<close>

record CSVDataStore =
  headers :: "string list"
  rows :: "row list"
  fileName :: string

text \<open>
  The store is one property of the global \<open>window\<close> object; where there is no \<open>window\<close>
  (on the server) writing does nothing and reading gives \<open>null\<close>.
\<close>

datatype window = NoWindow | Window "CSVDataStore option"

definition setCSVData :: "CSVDataStore \<Rightarrow> window \<Rightarrow> window" where
  "setCSVData d w = (case w of NoWindow \<Rightarrow> NoWindow | Window _ \<Rightarrow> Window (Some d))"

definition getCSVData :: "window \<Rightarrow> CSVDataStore option" where
  "getCSVData w = (case w of NoWindow \<Rightarrow> None | Window s \<Rightarrow> s)"

definition clearCSVData :: "window \<Rightarrow> window" where
  "clearCSVData w = (case w of NoWindow \<Rightarrow> NoWindow | Window _ \<Rightarrow> Window None)"

datatype error = Error string

datatype SortOrder = Asc | Desc

record AnalyzeCSVParams =
  query :: string
  sortBy :: "string option"
  sortOrder :: "SortOrder option"
  limit :: "num option"
  filterColumn :: "string option"
  filterValue :: "string option"

record LabelValue =
  label :: string
  "value" :: string

record AnalyzeCSVResult =
  headers_out :: "string list"
  rows_out :: "string list list"
  totalRows :: nat
  summary :: "LabelValue list"

definition firstRowValue :: "row list \<Rightarrow> string \<Rightarrow> jsval" where
  \<comment> \<open>\<open>rows[0]?.[h]\<close>\<close>
  "firstRowValue rs h = (case rs of [] \<Rightarrow> Undefined | r # _ \<Rightarrow> field r h)"

definition numericColumns :: "string list \<Rightarrow> row list \<Rightarrow> string list" where
  "numericColumns hs rs = filter (\<lambda>h. is_number (firstRowValue rs h)) hs"

definition columnNumbers :: "string \<Rightarrow> row list \<Rightarrow> num list" where
  "columnNumbers col rs = numbers (map (\<lambda>r. field r col) rs)"

definition js_sum :: "num list \<Rightarrow> num" where
  \<comment> \<open>\<open>values.reduce((acc, val) => acc + val, 0)\<close>\<close>
  "js_sum values = foldl js_add (Fin 0) values"

definition matchesFilter :: "runtime \<Rightarrow> string \<Rightarrow> string \<Rightarrow> row \<Rightarrow> bool" where
  "matchesFilter rt col v r =
     (case field r col of
        Str s \<Rightarrow> str_includes (toLowerCase s) (toLowerCase v)
      | x \<Rightarrow> String_js rt x = v)"

definition filterRows :: "runtime \<Rightarrow> AnalyzeCSVParams \<Rightarrow> row list \<Rightarrow> row list" where
  \<comment> \<open>\<open>if (params.filterColumn && params.filterValue)\<close>\<close>
  "filterRows rt params rs =
     (case (filterColumn params, filterValue params) of
        (Some col, Some v) \<Rightarrow>
          if col \<noteq> [] \<and> v \<noteq> [] then filter (matchesFilter rt col v) rs else rs
      | _ \<Rightarrow> rs)"

definition compareRows ::
  "runtime \<Rightarrow> string \<Rightarrow> SortOrder option \<Rightarrow> row \<Rightarrow> row \<Rightarrow> int" where
  "compareRows rt col ord a b =
     (let aVal = field a col; bVal = field b col
      in if is_number aVal \<and> is_number bVal then
           sign_of (if ord = Some Desc then js_sub (num_of bVal) (num_of aVal)
                    else js_sub (num_of aVal) (num_of bVal))
         else
           let aStr = toLowerCase (String_js rt (if truthy aVal then aVal else Str []));
               bStr = toLowerCase (String_js rt (if truthy bVal then bVal else Str []))
           in if ord = Some Desc then localeCompare rt bStr aStr
              else localeCompare rt aStr bStr)"

definition sortRows ::
  "runtime \<Rightarrow> string list \<Rightarrow> AnalyzeCSVParams \<Rightarrow> row list \<Rightarrow> row list" where
  \<comment> \<open>\<open>if (params.sortBy && headers.includes(params.sortBy))\<close>\<close>
  "sortRows rt hs params rs =
     (case sortBy params of
        Some col \<Rightarrow>
          if col \<noteq> [] \<and> col \<in> set hs then sort_by (compareRows rt col (sortOrder params)) rs
          else rs
      | None \<Rightarrow> rs)"

definition limitRows :: "AnalyzeCSVParams \<Rightarrow> row list \<Rightarrow> row list" where
  \<comment> \<open>\<open>if (params.limit && params.limit > 0)\<close>\<close>
  "limitRows params rs =
     (case limit params of
        Some n \<Rightarrow> if truthy (Num n) \<and> js_lt (Fin 0) n then slice0 n rs else rs
      | None \<Rightarrow> rs)"

definition columnAverages :: "runtime \<Rightarrow> string list \<Rightarrow> row list \<Rightarrow> LabelValue list" where
  "columnAverages rt hs rs =
     concat (map (\<lambda>col.
         let values = columnNumbers col rs
         in if values \<noteq> [] then
              [\<lparr>label = ''Avg '' @ col,
                value = toFixed rt 2 (js_div (js_sum values) (Fin (of_nat (length values))))\<rparr>]
            else [])
       (take 3 (numericColumns hs rs)))"

definition rowArray :: "runtime \<Rightarrow> string list \<Rightarrow> row \<Rightarrow> string list" where
  "rowArray rt hs r =
     map (\<lambda>h. if \<not> nullish (field r h) then String_js rt (field r h) else []) hs"

definition analyzeCSV ::
  "runtime \<Rightarrow> window \<Rightarrow> AnalyzeCSVParams \<Rightarrow> error + AnalyzeCSVResult" where
  "analyzeCSV rt w params =
     (case getCSVData w of
        None \<Rightarrow> Inl (Error ''No CSV data uploaded. Please upload a CSV file first.'')
      | Some data \<Rightarrow>
          if headers data = [] \<or> rows data = [] then
            Inl (Error ''CSV data is incomplete or empty.'')
          else
            let rows1 = filterRows rt params (rows data);
                rows2 = sortRows rt (headers data) params rows1;
                total = length rows2;
                rows3 = limitRows params rows2
            in Inr \<lparr>headers_out = headers data,
                    rows_out = map (rowArray rt (headers data)) rows3,
                    totalRows = total,
                    summary = \<lparr>label = ''Total Rows'', value = show_nat total\<rparr> #
                              columnAverages rt (headers data) (rows data)\<rparr>)"

section \<open>The data structure analyzer\<close>

datatype DataType = Timeseries | Categorical | Ranking | Comparison | Unknown

datatype Component = Graph | DataTable | InsightCard | InfoCard

record DataStructureAnalysis =
  dataType :: DataType
  suggestedComponent :: Component
  reasoning :: string
  confidence :: real

definition isDateName :: "string \<Rightarrow> bool" where
  "isDateName h =
     (str_includes (toLowerCase h) ''date'' \<or> str_includes (toLowerCase h) ''time'' \<or>
      str_includes (toLowerCase h) ''month'' \<or> str_includes (toLowerCase h) ''year'')"

definition hasDateColumn :: "string list \<Rightarrow> bool" where
  "hasDateColumn hs = list_ex isDateName hs"

definition textColumns :: "string list \<Rightarrow> row list \<Rightarrow> string list" where
  "textColumns hs rs = filter (\<lambda>h. is_string (firstRowValue rs h)) hs"

definition first_element :: "'a list \<Rightarrow> 'a option" where
  \<comment> \<open>\<open>xs[0]\<close>, \<open>None\<close> for \<open>undefined\<close>\<close>
  "first_element xs = (case xs of [] \<Rightarrow> None | x # _ \<Rightarrow> Some x)"

definition element0 :: "string list \<Rightarrow> string" where
  \<comment> \<open>\<open>xs[0]\<close> inside a template string: \<open>undefined\<close> is printed by name\<close>
  "element0 xs = (case xs of [] \<Rightarrow> ''undefined'' | x # _ \<Rightarrow> x)"

definition analyzeDataStructure :: "window \<Rightarrow> error + DataStructureAnalysis" where
  "analyzeDataStructure w =
     (case getCSVData w of
        None \<Rightarrow> Inl (Error ''No CSV data uploaded. Please upload a CSV file first.'')
      | Some csvData \<Rightarrow>
          if headers csvData = [] then
            Inl (Error ''CSV file has no headers. Please upload valid data.'')
          else if rows csvData = [] then
            Inl (Error ''CSV file is empty. Please upload data.'')
          else if hasDateColumn (headers csvData) then
            Inr \<lparr>dataType = Timeseries, suggestedComponent = Graph,
                 reasoning = ''Your data contains temporal information (dates/times). Time-series data is best visualized as trends and patterns using a Graph component.'',
                 confidence = 95 / 100\<rparr>
          else
            let nums = numericColumns (headers csvData) (rows csvData);
                texts = textColumns (headers csvData) (rows csvData)
            in if length nums \<ge> 2 \<and> length texts = 1 then
                 Inr \<lparr>dataType = Ranking, suggestedComponent = InsightCard,
                      reasoning = ''Your data has '' @ show_nat (length texts) @
                        '' category column ('' @ element0 texts @ '') and '' @
                        show_nat (length nums) @
                        '' numeric metrics. This is ranking data - best shown with top performers and key metrics using InsightCard.'',
                      confidence = 9 / 10\<rparr>
               else if length texts \<ge> 2 \<and> length nums \<ge> 1 then
                 Inr \<lparr>dataType = Comparison, suggestedComponent = InfoCard,
                      reasoning = ''Your data has multiple categories ('' @ join '', '' texts @
                        '') with metrics. This is comparison data - best explored with detailed cards showing each item'' @ [CHR 0x27] @ ''s information.'',
                      confidence = 85 / 100\<rparr>
               else if length nums \<ge> 3 \<and> length texts \<le> 1 then
                 Inr \<lparr>dataType = Categorical, suggestedComponent = Graph,
                      reasoning = ''Your data has '' @ show_nat (length nums) @
                        '' numeric columns. This can be visualized as a multi-series chart showing relationships between metrics.'',
                      confidence = 75 / 100\<rparr>
               else
                 Inr \<lparr>dataType = Unknown, suggestedComponent = DataTable,
                      reasoning = ''Your data has '' @ show_nat (length (headers csvData)) @
                        '' columns with '' @ show_nat (length texts) @ '' text and '' @
                        show_nat (length nums) @
                        '' numeric fields. Use an interactive DataTable to explore all the details.'',
                      confidence = 6 / 10\<rparr>)"

section \<open>The data insights service\<close>

text \<open>
  Of a \<open>DataInsight\<close> the title, the description, the metrics and the top performers are
  modelled; its \<open>recommendations\<close>, free text for display, are left out.
\<close>

record DataInsightsParams =
  analysisType :: string
  column :: "string option"
  limit' :: "num option"

datatype MetricType = Positive | Neutral | Warning

record InsightMetric = LabelValue +
  type :: MetricType

record TopPerformer =
  rank :: nat
  name :: string
  value' :: string
  details :: string

record DataInsight =
  title :: string
  description :: string
  metrics :: "InsightMetric list"
  topPerformers :: "TopPerformer list option"

fun js_max2 :: "num \<Rightarrow> num \<Rightarrow> num" where
  "js_max2 a b =
     (if a = NaN \<or> b = NaN then NaN
      else if js_lt a b then b
      else if js_lt b a then a
      else if a = NegZero then b else a)"

fun js_min2 :: "num \<Rightarrow> num \<Rightarrow> num" where
  "js_min2 a b =
     (if a = NaN \<or> b = NaN then NaN
      else if js_lt a b then a
      else if js_lt b a then b
      else if b = NegZero then b else a)"

definition Math_max :: "num list \<Rightarrow> num" where
  "Math_max values = foldl js_max2 NInf values"

definition Math_min :: "num list \<Rightarrow> num" where
  "Math_min values = foldl js_min2 PInf values"

definition generateSummary :: "runtime \<Rightarrow> string list \<Rightarrow> row list \<Rightarrow> string list \<Rightarrow> DataInsight" where
  "generateSummary rt hs rs nums =
     \<lparr>title = ''Data Summary'',
      description = ''Analysis of '' @ show_nat (length rs) @ '' records with '' @
        show_nat (length hs) @ '' columns'',
      metrics =
        [\<lparr>label = ''Total Records'', value = show_nat (length rs), type = Neutral\<rparr>,
         \<lparr>label = ''Data Columns'', value = show_nat (length hs), type = Neutral\<rparr>] @
        concat (map (\<lambda>col.
            let values = columnNumbers col rs
            in if values \<noteq> [] then
                 let avg = js_div (js_sum values) (Fin (of_nat (length values)));
                     mx = Math_max values;
                     mn = Math_min values
                 in [\<lparr>label = col @ '' Range'',
                       value = toFixed rt 0 mn @ '' - '' @ toFixed rt 0 mx, type = Neutral\<rparr>,
                     \<lparr>label = col @ '' Average'', value = toFixed rt 2 avg, type = Positive\<rparr>]
               else [])
          (take 3 nums)),
      topPerformers = None\<rparr>"

definition columnName :: "string option \<Rightarrow> string" where
  \<comment> \<open>the column as a property key or inside a template string; \<open>None\<close> is \<open>undefined\<close>\<close>
  "columnName c = (case c of None \<Rightarrow> ''undefined'' | Some s \<Rightarrow> s)"

definition labelColumn :: "string list \<Rightarrow> row list \<Rightarrow> string" where
  "labelColumn hs rs =
     (case find (\<lambda>h. toLowerCase h \<in> set [''name'', ''product'', ''title'', ''label'']) hs of
        Some h \<Rightarrow> h
      | None \<Rightarrow>
          (case find (\<lambda>h. is_string (firstRowValue rs h)) hs of
             Some h \<Rightarrow> if h \<noteq> [] then h else element0 hs
           | None \<Rightarrow> element0 hs))"

definition comparePerformers :: "string \<Rightarrow> row \<Rightarrow> row \<Rightarrow> int" where
  "comparePerformers col a b =
     (let aVal = field a col; bVal = field b col
      in if is_number aVal \<and> is_number bVal then sign_of (js_sub (num_of bVal) (num_of aVal))
         else 0)"

definition sortedPerformers :: "row list \<Rightarrow> string \<Rightarrow> num \<Rightarrow> row list" where
  "sortedPerformers rs col lmt = slice0 lmt (sort_by (comparePerformers col) rs)"

definition performer :: "runtime \<Rightarrow> string \<Rightarrow> string \<Rightarrow> nat \<times> row \<Rightarrow> TopPerformer" where
  "performer rt lab col ir =
     (case ir of (idx, r) \<Rightarrow>
        \<lparr>rank = idx + 1,
         name = (if truthy (field r lab) then String_js rt (field r lab)
                 else ''Item '' @ show_nat (idx + 1)),
         value' = (if nullish (field r col) then ''N/A'' else String_js rt (field r col)),
         details = col @ '': '' @ String_js rt (field r col)\<rparr>)"

definition generateTopPerformers ::
  "runtime \<Rightarrow> string list \<Rightarrow> row list \<Rightarrow> string option \<Rightarrow> num \<Rightarrow> error + DataInsight" where
  "generateTopPerformers rt hs rs c lmt =
     (if (case c of None \<Rightarrow> True | Some col \<Rightarrow> col \<notin> set hs) then
        Inl (Error (''Column '' @ [CHR 0x22] @ columnName c @ [CHR 0x22] @
                    '' not found. Available columns: '' @ join '', '' hs))
      else
        let col = columnName c;
            lab = labelColumn hs rs;
            sorted = sortedPerformers rs col lmt
        in Inr \<lparr>title = ''Top '' @ Number_toString rt lmt @ '' by '' @ col,
                description = ''Highest performing items based on '' @ col,
                metrics =
                  [\<lparr>label = ''Top Value'',
                    value = (case sorted of
                               [] \<Rightarrow> ''N/A''
                             | r # _ \<Rightarrow> if nullish (field r col) then ''N/A''
                                        else String_js rt (field r col)),
                    type = Positive\<rparr>,
                   \<lparr>label = ''Items Analyzed'', value = show_nat (length rs),
                    type = Neutral\<rparr>],
                topPerformers = Some (map (performer rt lab col) (enumerate 0 sorted))\<rparr>)"

definition trendMetric :: "runtime \<Rightarrow> row list \<Rightarrow> string \<Rightarrow> InsightMetric list" where
  "trendMetric rt rs col =
     (let values = columnNumbers col rs
      in if length values \<ge> 2 then
           let first = hd values;
               lst = last values;
               change = js_mul (js_div (js_sub lst first) first) (Fin 100);
               trend = (if js_lt (Fin 0) change then Positive
                        else if js_lt change (Fin 0) then Warning else Neutral)
           in [\<lparr>label = col @ '' Trend'',
                 value = (if js_lt (Fin 0) change then ''+'' else []) @ toFixed rt 1 change @ ''%'',
                 type = trend\<rparr>]
         else [])"

definition generateTrends :: "runtime \<Rightarrow> string list \<Rightarrow> row list \<Rightarrow> string list \<Rightarrow> DataInsight" where
  "generateTrends rt hs rs nums =
     (let ms = concat (map (trendMetric rt rs) nums)
      in \<lparr>title = ''Data Trends'',
          description = ''Trend analysis across numeric columns'',
          metrics = (if ms \<noteq> [] then ms
                     else [\<lparr>label = ''Status'', value = ''No trends detected'', type = Neutral\<rparr>]),
          topPerformers = None\<rparr>)"

definition generateRecommendations :: "string list \<Rightarrow> row list \<Rightarrow> string list \<Rightarrow> DataInsight" where
  "generateRecommendations hs rs nums =
     \<lparr>title = ''Data Recommendations'',
      description = ''Actionable insights based on data analysis'',
      metrics =
        [\<lparr>label = ''Total Records'', value = show_nat (length rs), type = Neutral\<rparr>,
         \<lparr>label = ''Data Quality'', value = ''Good'', type = Positive\<rparr>],
      topPerformers = None\<rparr>"

definition generateDataInsights ::
  "runtime \<Rightarrow> window \<Rightarrow> DataInsightsParams \<Rightarrow> error + DataInsight" where
  "generateDataInsights rt w params =
     (case getCSVData w of
        None \<Rightarrow> Inl (Error ''No CSV data uploaded. Please upload a file first.'')
      | Some csvData \<Rightarrow>
          if headers csvData = [] \<or> rows csvData = [] then
            Inl (Error ''CSV data is incomplete or empty.'')
          else
            let hs = headers csvData;
                rs = rows csvData;
                nums = numericColumns hs rs
            in if analysisType params = ''summary'' then Inr (generateSummary rt hs rs nums)
               else if analysisType params = ''top_performers'' then
                 generateTopPerformers rt hs rs
                   (case column params of
                      Some col \<Rightarrow> if col \<noteq> [] then Some col else first_element nums
                    | None \<Rightarrow> first_element nums)
                   (case limit' params of
                      Some n \<Rightarrow> if truthy (Num n) then n else Fin 5
                    | None \<Rightarrow> Fin 5)
               else if analysisType params = ''trends'' then Inr (generateTrends rt hs rs nums)
               else if analysisType params = ''recommendations'' then
                 Inr (generateRecommendations hs rs nums)
               else Inr (generateSummary rt hs rs nums))"

section \<open>The exploration suggestions service\<close>

record Suggestion =
  label' :: string
  description' :: string
  action :: string

record ExplorationSuggestion =
  mainInsight :: string
  suggestions :: "Suggestion list"

definition setKey :: "jsval \<Rightarrow> jsval" where
  \<comment> \<open>a \<open>Set\<close> holds the two zeros as one value\<close>
  "setKey v = (if v = Num NegZero then Num (Fin 0) else v)"

definition uniqueCount :: "row list \<Rightarrow> string \<Rightarrow> nat" where
  \<comment> \<open>\<open>new Set(rows.map((r) => r[col])).size\<close>\<close>
  "uniqueCount rs col = length (remdups (map (\<lambda>r. setKey (field r col)) rs))"

definition buildMainInsight ::
  "string list \<Rightarrow> row list \<Rightarrow> string list \<Rightarrow> string list \<Rightarrow> bool \<Rightarrow> string" where
  "buildMainInsight hs rs stringColumns nums hasDate =
     (let uniqueCounts =
            map (\<lambda>col. show_nat (uniqueCount rs col) @ '' unique '' @ toLowerCase col)
              (take 2 stringColumns)
      in ''Your dataset has '' @ show_nat (length rs) @ '' records across '' @
         show_nat (length hs) @ '' columns. '' @
         (if length stringColumns > 0 then
            ''You have '' @ show_nat (length stringColumns) @ '' category column'' @
            (if length stringColumns > 1 then ''s'' else []) @ '' ('' @
            join '', '' stringColumns @ '') with '' @ join '' and '' uniqueCounts @ ''. ''
          else []) @
         (if length nums > 0 then
            ''There are '' @ show_nat (length nums) @ '' numeric metric'' @
            (if length nums > 1 then ''s'' else []) @ '' ('' @ join '', '' nums @
            '') to analyze. ''
          else []) @
         (if hasDate then ''Your data spans a time period, so you can analyze trends. ''
          else []) @
         ''Here are some interesting ways to explore your data:'')"

definition suggestionList :: "string list \<Rightarrow> string list \<Rightarrow> bool \<Rightarrow> Suggestion list" where
  "suggestionList stringColumns nums hasDate =
     (if length stringColumns > 0 \<and> length nums > 0 then
        [\<lparr>label' = ''Compare by '' @ element0 stringColumns,
          description' = ''See how '' @ toLowerCase (element0 nums) @
            '' varies across different '' @ toLowerCase (element0 stringColumns),
          action = ''Show me the top 5 '' @ toLowerCase (element0 stringColumns) @ '' by '' @
            element0 nums @ '' in a ranked list with details''\<rparr>]
      else []) @
     (if length nums > 0 then
        [\<lparr>label' = ''Identify Outliers'',
          description' = ''Find unusually high or low values in '' @ element0 nums,
          action = ''Analyze '' @ element0 nums @
            '': Show me the highest 3 and lowest 3 values. What makes them unusual? Explain the outliers.''\<rparr>]
      else []) @
     (if hasDate \<and> length nums > 0 then
        [\<lparr>label' = ''Analyze Trends'',
          description' = ''See how '' @ toLowerCase (element0 nums) @ '' changes over time'',
          action = ''Show me '' @ element0 nums @
            '' trends over the time period. Are values increasing, decreasing, or stable? Explain any patterns.''\<rparr>]
      else []) @
     (if length nums \<ge> 2 then
        [\<lparr>label' = ''Distribution Analysis'',
          description' = ''Compare distribution of '' @ element0 nums @ '' vs '' @
            element0 (tl nums),
          action = ''How does '' @ element0 nums @ '' compare to '' @ element0 (tl nums) @
            ''? Show the relationship between these metrics and identify correlations.''\<rparr>]
      else []) @
     (if length stringColumns > 1 \<and> length nums > 0 then
        [\<lparr>label' = element0 stringColumns @ '' vs '' @ element0 (tl stringColumns) @
            '' Breakdown'',
          description' = ''Analyze how these two categories interact'',
          action = ''Show me the relationship between '' @ element0 stringColumns @ '' and '' @
            element0 (tl stringColumns) @ ''. Which combinations have the highest values?''\<rparr>]
      else []) @
     (if length nums \<ge> 2 then
        [\<lparr>label' = ''Best Performers'',
          description' = ''Find the top overall performers across all metrics'',
          action = ''What are the best performing items overall? Consider all metrics and show me the top 5 with full details.''\<rparr>]
      else [])"

definition generateExplorationSuggestions :: "window \<Rightarrow> error + ExplorationSuggestion" where
  "generateExplorationSuggestions w =
     (case getCSVData w of
        None \<Rightarrow> Inl (Error ''No CSV data uploaded. Please upload a CSV file first.'')
      | Some csvData \<Rightarrow>
          if headers csvData = [] \<or> rows csvData = [] then
            Inl (Error ''CSV file is empty or invalid.'')
          else
            let hs = headers csvData;
                rs = rows csvData;
                stringColumns = textColumns hs rs;
                nums = numericColumns hs rs;
                hasDate = hasDateColumn hs;
                found = suggestionList stringColumns nums hasDate
            in Inr \<lparr>mainInsight = buildMainInsight hs rs stringColumns nums hasDate,
                    suggestions =
                      (if found \<noteq> [] then found
                       else [\<lparr>label' = ''Explore Data'',
                              description' = ''Get a summary of your data'',
                              action = ''Give me an overview of this data with key metrics and insights''\<rparr>])\<rparr>)"

section \<open>Worked examples\<close>

text \<open>
  A runtime to compute with: it prints every fraction as \<open>?\<close> (the examples hold
  small integers only), prints a built-in function in the usual native-code form and
  compares strings by their bytes.  Small datasets follow, and the query that asks for
  nothing.  In \<open>protoData\<close> the first column is named \<open>__proto__\<close>: the parser's
  assignment of a string to that name leaves the row without an own property of the name.
\<close>

fun compareBytes :: "string \<Rightarrow> string \<Rightarrow> int" where
  "compareBytes [] [] = 0"
| "compareBytes [] (d # t) = - 1"
| "compareBytes (c # s) [] = 1"
| "compareBytes (c # s) (d # t) =
     (if (of_char c :: nat) < of_char d then - 1
      else if (of_char d :: nat) < of_char c then 1
      else compareBytes s t)"

definition exampleRuntime :: runtime where
  "exampleRuntime =
     \<lparr>shortestDigits = (\<lambda>r. ''?''),
      functionToString = (\<lambda>f. ''function '' @ f @ ''() { [native code] }''),
      localeCompare = compareBytes\<rparr>"

definition salesData :: CSVDataStore where
  "salesData =
     \<lparr>headers = [''Month'', ''Revenue'', ''Region''],
      rows = [[''Month'' \<mapsto> Str ''Jan'', ''Revenue'' \<mapsto> Num (Fin 100), ''Region'' \<mapsto> Str ''East''],
              [''Month'' \<mapsto> Str ''Feb'', ''Revenue'' \<mapsto> Num (Fin 150), ''Region'' \<mapsto> Str ''West'']],
      fileName = ''sales.csv''\<rparr>"

definition noQuery :: AnalyzeCSVParams where
  "noQuery =
     \<lparr>query = [], sortBy = None, sortOrder = None, limit = None,
      filterColumn = None, filterValue = None\<rparr>"

definition productData :: CSVDataStore where
  "productData =
     \<lparr>headers = [''Product'', ''Units'', ''Revenue''],
      rows = [[''Product'' \<mapsto> Str ''A'', ''Units'' \<mapsto> Num (Fin 3), ''Revenue'' \<mapsto> Num (Fin 0)],
              [''Product'' \<mapsto> Str ''B'', ''Units'' \<mapsto> Num (Fin 7), ''Revenue'' \<mapsto> Null],
              [''Product'' \<mapsto> Str ''C'', ''Units'' \<mapsto> Num (Fin 5), ''Revenue'' \<mapsto> Num (Fin 150)]],
      fileName = ''products.csv''\<rparr>"

definition protoData :: CSVDataStore where
  "protoData =
     \<lparr>headers = [''__proto__'', ''v''],
      rows = [[''v'' \<mapsto> Num (Fin 1)]],
      fileName = ''proto.csv''\<rparr>"

definition tiedRows :: "row list" where
  "tiedRows =
     [[''id'' \<mapsto> Str ''a'', ''k'' \<mapsto> Num (Fin 2)],
      [''id'' \<mapsto> Str ''b'', ''k'' \<mapsto> Num (Fin 1)],
      [''id'' \<mapsto> Str ''c'', ''k'' \<mapsto> Num (Fin 2)]]"

section \<open>Evaluation lemmas\<close>

lemma show_nat_small: "n < 10 \<Longrightarrow> show_nat n = [digit n]"
  by (simp add: show_nat.simps)

lemma show_nat_big: "\<not> n < 10 \<Longrightarrow> show_nat n = show_nat (n div 10) @ [digit (n mod 10)]"
  by (subst show_nat.simps) simp

lemmas number_defs =
  js_add_def js_sub_def js_mul_def js_div_def js_sum_def inf_of_def zero_of_def
  Number_toString_def show_int_def show_nat_small show_nat_big digit_def
  toFixed_def fixed_digits_def Let_def

lemmas inherited_defs = inherited_def objectPrototypeMethods_def

lemmas value_defs =
  field_def String_js_def truthy_def nullish_def typeof_def is_number_def is_string_def
  toLowerCase_def toLowerCase_char_def

lemma numericColumns_Nil: "numericColumns [] rs = []"
  by (simp add: numericColumns_def)

lemma numericColumns_Cons:
  "numericColumns (h # hs) rs =
     (if is_number (firstRowValue rs h) then h # numericColumns hs rs else numericColumns hs rs)"
  by (simp add: numericColumns_def)

lemma textColumns_Nil: "textColumns [] rs = []"
  by (simp add: textColumns_def)

lemma textColumns_Cons:
  "textColumns (h # hs) rs =
     (if is_string (firstRowValue rs h) then h # textColumns hs rs else textColumns hs rs)"
  by (simp add: textColumns_def)

lemma columnNumbers_Nil: "columnNumbers col [] = []"
  by (simp add: columnNumbers_def)

lemma columnNumbers_Cons:
  "columnNumbers col (r # rs) =
     (if is_number (field r col) then num_of (field r col) # columnNumbers col rs
      else columnNumbers col rs)"
  by (cases "field r col") (simp_all add: columnNumbers_def is_number_def typeof_def)

lemmas column_simps =
  numericColumns_Nil numericColumns_Cons textColumns_Nil textColumns_Cons
  columnNumbers_Nil columnNumbers_Cons firstRowValue_def

lemmas csv_defs =
  analyzeCSV_def getCSVData_def filterRows_def matchesFilter_def sortRows_def sort_by_def
  compareRows_def limitRows_def slice0_def rowArray_def columnAverages_def
  numericColumns_def firstRowValue_def columnNumbers_def

lemma getCSVData_clear: "getCSVData (clearCSVData w) = None"
  by (cases w) (simp_all add: getCSVData_def clearCSVData_def)

section \<open>No dataset loaded\<close>

text \<open>
  Claim C7.  The query, the shape classification, the insight generation and the suggestion
  generation, called while no dataset is loaded (there is no window, nothing was stored
  yet, or the store was cleared), each fail with a "No CSV data uploaded" error; none of
  them computes a result.
\<close>

theorem not_loaded_rejected:
  assumes "w = NoWindow \<or> w = Window None \<or> w = clearCSVData w0"
  shows "analyzeCSV rt w p =
           Inl (Error ''No CSV data uploaded. Please upload a CSV file first.'')
       \<and> analyzeDataStructure w =
           Inl (Error ''No CSV data uploaded. Please upload a CSV file first.'')
       \<and> generateDataInsights rt w q =
           Inl (Error ''No CSV data uploaded. Please upload a file first.'')
       \<and> generateExplorationSuggestions w =
           Inl (Error ''No CSV data uploaded. Please upload a CSV file first.'')"
proof -
  from assms getCSVData_clear [of w0] have "getCSVData w = None"
    by (auto simp: getCSVData_def)
  then show ?thesis
    by (simp add: analyzeCSV_def analyzeDataStructure_def generateDataInsights_def
        generateExplorationSuggestions_def)
qed

theorem not_loaded_rejected_witness:
  "analyzeCSV exampleRuntime (clearCSVData (setCSVData salesData (Window None))) noQuery
     = Inl (Error ''No CSV data uploaded. Please upload a CSV file first.'')
   \<and> analyzeDataStructure (clearCSVData (setCSVData salesData (Window None)))
     = Inl (Error ''No CSV data uploaded. Please upload a CSV file first.'')
   \<and> generateDataInsights exampleRuntime (clearCSVData (setCSVData salesData (Window None)))
        \<lparr>analysisType = ''trends'', column = None, limit' = None\<rparr>
     = Inl (Error ''No CSV data uploaded. Please upload a file first.'')
   \<and> generateExplorationSuggestions (clearCSVData (setCSVData salesData (Window None)))
     = Inl (Error ''No CSV data uploaded. Please upload a CSV file first.'')"
  using not_loaded_rejected [of "clearCSVData (setCSVData salesData (Window None))"
      "setCSVData salesData (Window None)" exampleRuntime noQuery
      "\<lparr>analysisType = ''trends'', column = None, limit' = None\<rparr>"]
  by simp

section \<open>Shape classification\<close>

text \<open>
  Claim C5.  For a loaded dataset with at least one column and one row, if some column
  name contains, after lower-casing, "date", "time", "month" or "year", the classifier
  returns the time-series category with confidence 0.95 and the Graph component, whatever
  the numeric and text columns are.
\<close>

theorem date_name_takes_precedence:
  assumes "getCSVData w = Some D" and "headers D \<noteq> []" and "rows D \<noteq> []"
    and "h \<in> set (headers D)"
    and "str_includes (toLowerCase h) ''date'' \<or> str_includes (toLowerCase h) ''time'' \<or>
         str_includes (toLowerCase h) ''month'' \<or> str_includes (toLowerCase h) ''year''"
  shows "\<exists>r. analyzeDataStructure w = Inr r \<and> dataType r = Timeseries \<and>
             confidence r = 95 / 100 \<and> suggestedComponent r = Graph"
proof -
  from assms(4,5) have "hasDateColumn (headers D)"
    unfolding hasDateColumn_def list_ex_iff isDateName_def by blast
  with assms(1-3) show ?thesis
    by (simp add: analyzeDataStructure_def)
qed

theorem date_name_takes_precedence_witness:
  "\<exists>r. analyzeDataStructure (Window (Some salesData)) = Inr r \<and> dataType r = Timeseries \<and>
       confidence r = 95 / 100 \<and> suggestedComponent r = Graph"
  using date_name_takes_precedence [of "Window (Some salesData)" salesData "''Month''"]
  by (simp add: getCSVData_def salesData_def value_defs)

section \<open>Properties of the stable sort\<close>

lemma length_insort_by: "length (insort_by c x xs) = Suc (length xs)"
  by (induction xs) auto

lemma length_sort_by: "length (sort_by c xs) = length xs"
  by (induction xs) (auto simp: sort_by_def length_insort_by)

lemma sort_by_Nil: "sort_by c [] = []"
  by (simp add: sort_by_def)

lemma sort_by_Cons: "sort_by c (x # xs) = insort_by c x (sort_by c xs)"
  by (simp add: sort_by_def)

lemma set_insort_by: "set (insort_by c x xs) = insert x (set xs)"
  by (induction xs) auto

lemma set_sort_by: "set (sort_by c xs) = set xs"
  by (induction xs) (simp_all add: sort_by_Nil sort_by_Cons set_insort_by)

lemma successively_insort_by:
  assumes anti: "\<And>a b. 0 < c a b \<Longrightarrow> c b a \<le> 0"
    and "successively (\<lambda>a b. c a b \<le> 0) xs"
  shows "successively (\<lambda>a b. c a b \<le> 0) (insort_by c x xs)"
  using assms(2)
proof (induction xs)
  case Nil
  then show ?case by simp
next
  case (Cons y ys)
  show ?case
  proof (cases "c x y \<le> 0")
    case True
    with Cons.prems show ?thesis by simp
  next
    case False
    then have yx: "c y x \<le> 0" using anti [of x y] by simp
    from Cons have IH: "successively (\<lambda>a b. c a b \<le> 0) (insort_by c x ys)"
      by (cases ys) auto
    from Cons.prems False yx IH show ?thesis
      by (cases ys) (auto)
  qed
qed

lemma successively_sort_by:
  assumes "\<And>a b. 0 < c a b \<Longrightarrow> c b a \<le> 0"
  shows "successively (\<lambda>a b. c a b \<le> 0) (sort_by c xs)"
  by (induction xs) (simp_all add: sort_by_Nil sort_by_Cons successively_insort_by assms)


lemma sign_sub_swap: "sign_of (js_sub a b) = - sign_of (js_sub b a)"
  by (cases a; cases b) (auto simp: js_sub_def js_add_def)




lemma length_sortRows: "length (sortRows rt hs p rs) = length rs"
  by (simp add: sortRows_def length_sort_by split: option.splits)

lemma limitRows_Nil: "limitRows p [] = []"
  by (simp add: limitRows_def slice0_def split: option.splits num.splits)

section \<open>The query\<close>

text \<open>
  Claim C2.  For a loaded dataset with at least one column and one row, the query with no
  filter, no sort and no limit returns the column names in order, every row in its
  original place with each cell turned into a string under the header order, a missing
  cell as the empty string, and the number of rows as \<open>totalRows\<close>.  The code tests
  \<open>row[h] != null\<close>, which misses the headers that name a property every object
  inherits: for the dataset whose first header is \<open>__proto__\<close>, which its row does not
  own, the missing cell comes back as the text of the inherited object, not as the empty
  string.
\<close>

theorem round_trip_inherited_cell:
  "analyzeCSV exampleRuntime (Window (Some protoData)) noQuery =
     Inr \<lparr>headers_out = [''__proto__'', ''v''],
          rows_out = [[''[object Object]'', ''1'']],
          totalRows = 1,
          summary = [\<lparr>label = ''Total Rows'', value = ''1''\<rparr>,
                     \<lparr>label = ''Avg v'', value = ''1.00''\<rparr>]\<rparr>"
  by (simp add: csv_defs value_defs inherited_defs number_defs protoData_def noQuery_def
      exampleRuntime_def)

text \<open>
  What the plain query does for every dataset: it keeps the headers, the rows and their
  order, and counts them.  Under a header that names no inherited property a cell is the
  empty string when it is missing or null, and the string form of its value otherwise.
\<close>

lemma rowArray_ordinary:
  assumes "\<forall>h \<in> set hs. inherited h = Undefined"
  shows "rowArray rt hs row =
     map (\<lambda>h. case row h of None \<Rightarrow> [] | Some Null \<Rightarrow> [] | Some Undefined \<Rightarrow> []
                 | Some v \<Rightarrow> String_js rt v) hs"
  unfolding rowArray_def
  by (rule map_cong [OF refl])
    (use assms in \<open>auto simp: field_def nullish_def split: option.splits jsval.splits\<close>)

lemma plain_query_keeps_rows:
  assumes "getCSVData w = Some D" and "headers D \<noteq> []" and "rows D \<noteq> []"
    and "filterColumn p = None" and "filterValue p = None"
    and "sortBy p = None" and "limit p = None"
  shows "\<exists>r. analyzeCSV rt w p = Inr r \<and> headers_out r = headers D \<and>
           rows_out r = map (rowArray rt (headers D)) (rows D) \<and>
           totalRows r = length (rows D)"
  using assms
  by (simp add: analyzeCSV_def filterRows_def sortRows_def limitRows_def Let_def)

text \<open>
  Claim C4.  For a loaded dataset and a query that names a filter column and a non-empty
  filter value, \<open>totalRows\<close> is the number of rows the filter keeps, whatever the sort
  and the limit are; when the value occurs in no row of that column (as a substring of the
  lower-cased string cell, or equal to the string form of any other cell), no row is
  returned and \<open>totalRows\<close> is 0.
\<close>

theorem filter_without_match:
  assumes "getCSVData w = Some D" and "headers D \<noteq> []" and "rows D \<noteq> []"
    and "filterColumn p = Some c" and "c \<noteq> []"
    and "filterValue p = Some v" and "v \<noteq> []"
  shows "\<exists>r. analyzeCSV rt w p = Inr r \<and>
           totalRows r = length (filter (matchesFilter rt c v) (rows D)) \<and>
           ((\<forall>row \<in> set (rows D).
               case field row c of
                 Str s \<Rightarrow> \<not> str_includes (toLowerCase s) (toLowerCase v)
               | x \<Rightarrow> String_js rt x \<noteq> v)
            \<longrightarrow> rows_out r = [] \<and> totalRows r = 0)"
proof -
  let ?kept = "filter (matchesFilter rt c v) (rows D)"
  have kept: "filterRows rt p (rows D) = ?kept"
    using assms(4-7) by (simp add: filterRows_def)
  have none: "?kept = []"
    if "\<forall>row \<in> set (rows D).
          case field row c of
            Str s \<Rightarrow> \<not> str_includes (toLowerCase s) (toLowerCase v)
          | x \<Rightarrow> String_js rt x \<noteq> v"
  proof -
    have "\<not> matchesFilter rt c v row" if "row \<in> set (rows D)" for row
      using \<open>\<forall>row \<in> set (rows D). _\<close> that
      by (auto simp: matchesFilter_def split: jsval.splits)
    then show ?thesis by (simp add: filter_empty_conv)
  qed
  have sorted_nil: "sortRows rt (headers D) p [] = []"
    using length_sortRows [of rt "headers D" p "[]"] by simp
  show ?thesis
    using assms(1-3) kept none sorted_nil
    by (auto simp: analyzeCSV_def Let_def length_sortRows limitRows_Nil)
qed

theorem filter_without_match_witness:
  "\<exists>r. analyzeCSV exampleRuntime (Window (Some salesData))
         (noQuery\<lparr>filterColumn := Some ''Region'', filterValue := Some ''north'',
                  limit := Some (Fin 1)\<rparr>) = Inr r \<and>
       rows_out r = [] \<and> totalRows r = 0"
  using filter_without_match [of "Window (Some salesData)" salesData
      "noQuery\<lparr>filterColumn := Some ''Region'', filterValue := Some ''north'',
               limit := Some (Fin 1)\<rparr>" "''Region''" "''north''" exampleRuntime]
  by (auto simp: getCSVData_def salesData_def noQuery_def value_defs)




lemma tiedRows_sorted:
  "sortRows exampleRuntime [''id'', ''k'']
     (noQuery\<lparr>sortBy := Some ''k'', sortOrder := Some Desc\<rparr>) tiedRows =
   [[''id'' \<mapsto> Str ''a'', ''k'' \<mapsto> Num (Fin 2)],
    [''id'' \<mapsto> Str ''c'', ''k'' \<mapsto> Num (Fin 2)],
    [''id'' \<mapsto> Str ''b'', ''k'' \<mapsto> Num (Fin 1)]]"
  by (simp add: sortRows_def sort_by_def noQuery_def tiedRows_def compareRows_def value_defs
      js_sub_def js_add_def)



text \<open>
  Claim C1, as stated: a query whose filter column or sort column is not a column name
  fails with an error naming the column.  The code does not do that.  A sort column that
  is not among the headers switches the sort off; a filter column that is not there is
  looked up in every row all the same, and here matches no row.  Both queries below
  succeed.
\<close>

theorem unknown_column_counterexample:
  "''Price'' \<notin> set (headers salesData) \<and> ''Country'' \<notin> set (headers salesData) \<and>
   analyzeCSV exampleRuntime (Window (Some salesData)) (noQuery\<lparr>sortBy := Some ''Price''\<rparr>) =
     Inr \<lparr>headers_out = [''Month'', ''Revenue'', ''Region''],
          rows_out = [[''Jan'', ''100'', ''East''], [''Feb'', ''150'', ''West'']],
          totalRows = 2,
          summary = [\<lparr>label = ''Total Rows'', value = ''2''\<rparr>,
                     \<lparr>label = ''Avg Revenue'', value = ''125.00''\<rparr>]\<rparr> \<and>
   analyzeCSV exampleRuntime (Window (Some salesData))
       (noQuery\<lparr>filterColumn := Some ''Country'', filterValue := Some ''east''\<rparr>) =
     Inr \<lparr>headers_out = [''Month'', ''Revenue'', ''Region''],
          rows_out = [],
          totalRows = 0,
          summary = [\<lparr>label = ''Total Rows'', value = ''0''\<rparr>,
                     \<lparr>label = ''Avg Revenue'', value = ''125.00''\<rparr>]\<rparr>"
  by (simp add: csv_defs value_defs inherited_defs number_defs salesData_def noQuery_def
      exampleRuntime_def)

text \<open>
  Claim C1, amended.  For a loaded dataset with at least one column and one row the query
  returns a result whatever its filter column and sort column are: a column that is not
  among the column names is never rejected.  A sort column that is not among the column
  names is ignored: the query returns exactly what the same query without a sort column
  returns.
\<close>

theorem unknown_column_not_rejected:
  assumes "getCSVData w = Some D" and "headers D \<noteq> []" and "rows D \<noteq> []"
  shows "(\<exists>r. analyzeCSV rt w p = Inr r) \<and>
         (\<forall>s. sortBy p = Some s \<and> s \<notin> set (headers D) \<longrightarrow>
              analyzeCSV rt w p = analyzeCSV rt w (p\<lparr>sortBy := None\<rparr>))"
proof (intro conjI allI impI)
  show "\<exists>r. analyzeCSV rt w p = Inr r"
    using assms by (simp add: analyzeCSV_def Let_def)
next
  fix s
  assume "sortBy p = Some s \<and> s \<notin> set (headers D)"
  then have "sortRows rt (headers D) p rs = rs" for rs
    by (simp add: sortRows_def)
  moreover have "sortRows rt (headers D) (p\<lparr>sortBy := None\<rparr>) rs = rs" for rs
    by (simp add: sortRows_def)
  ultimately show "analyzeCSV rt w p = analyzeCSV rt w (p\<lparr>sortBy := None\<rparr>)"
    using assms by (simp add: analyzeCSV_def Let_def filterRows_def limitRows_def)
qed

theorem unknown_column_not_rejected_witness:
  "(\<exists>r. analyzeCSV exampleRuntime (Window (Some salesData))
          (noQuery\<lparr>sortBy := Some ''Price'', filterColumn := Some ''Country'',
                   filterValue := Some ''east''\<rparr>) = Inr r) \<and>
   analyzeCSV exampleRuntime (Window (Some salesData))
     (noQuery\<lparr>sortBy := Some ''Price'', filterColumn := Some ''Country'',
              filterValue := Some ''east''\<rparr>) =
   analyzeCSV exampleRuntime (Window (Some salesData))
     (noQuery\<lparr>sortBy := Some ''Price'', filterColumn := Some ''Country'',
              filterValue := Some ''east'', sortBy := None\<rparr>)"
proof -
  let ?p = "noQuery\<lparr>sortBy := Some ''Price'', filterColumn := Some ''Country'',
                    filterValue := Some ''east''\<rparr>"
  have loaded: "getCSVData (Window (Some salesData)) = Some salesData"
    by (simp add: getCSVData_def)
  have cols: "headers salesData \<noteq> []" and some: "rows salesData \<noteq> []"
    by (simp_all add: salesData_def)
  have unknown: "sortBy ?p = Some ''Price'' \<and> ''Price'' \<notin> set (headers salesData)"
    by (simp add: salesData_def)
  from unknown_column_not_rejected [OF loaded cols some, of exampleRuntime ?p] unknown
  show ?thesis by blast
qed

section \<open>What the classification depends on\<close>

text \<open>
  Claim C8.  The classification is a function of the stored dataset alone, and of the
  dataset it reads only the column names and the types of the values in the first row:
  two datasets with the same column names whose first rows hold values of the same types,
  column by column, get the same category, component, reasoning and confidence.  In
  particular classifying the same dataset twice gives the same result.
\<close>

theorem classification_reads_names_and_first_row_types:
  assumes "getCSVData w = Some D" and "getCSVData w' = Some D'"
    and "headers D = headers D'"
    and "(rows D = []) = (rows D' = [])"
    and "\<forall>h \<in> set (headers D).
           typeof (firstRowValue (rows D) h) = typeof (firstRowValue (rows D') h)"
  shows "analyzeDataStructure w = analyzeDataStructure w'"
proof -
  have nums: "numericColumns (headers D) (rows D) = numericColumns (headers D') (rows D')"
    unfolding numericColumns_def is_number_def using assms(3,5)
    by (auto intro: filter_cong)
  have texts: "textColumns (headers D) (rows D) = textColumns (headers D') (rows D')"
    unfolding textColumns_def is_string_def using assms(3,5)
    by (auto intro: filter_cong)
  show ?thesis
    using assms(1-4) nums texts
    by (simp add: analyzeDataStructure_def Let_def)
qed

theorem classification_reads_names_and_first_row_types_witness:
  "analyzeDataStructure (Window (Some productData)) =
   analyzeDataStructure (Window (Some (productData\<lparr>rows :=
       [[''Product'' \<mapsto> Str ''Z'', ''Units'' \<mapsto> Num (Fin 1), ''Revenue'' \<mapsto> Num (Fin 2)]],
       fileName := ''other.csv''\<rparr>)))"
  using classification_reads_names_and_first_row_types
    [where w = "Window (Some productData)" and D = productData
       and w' = "Window (Some (productData\<lparr>rows :=
       [[''Product'' \<mapsto> Str ''Z'', ''Units'' \<mapsto> Num (Fin 1), ''Revenue'' \<mapsto> Num (Fin 2)]],
       fileName := ''other.csv''\<rparr>))"
       and D' = "productData\<lparr>rows :=
       [[''Product'' \<mapsto> Str ''Z'', ''Units'' \<mapsto> Num (Fin 1), ''Revenue'' \<mapsto> Num (Fin 2)]],
       fileName := ''other.csv''\<rparr>"]
  by (simp add: getCSVData_def productData_def firstRowValue_def field_def typeof_def)

section \<open>Insights\<close>

lemma div_by_zero_not_finite:
  "is_zero z \<Longrightarrow> js_mul (js_div (js_sub l z) z) (Fin 100) \<in> {PInf, NInf, NaN}"
  by (cases z; cases l) (auto simp: js_sub_def js_add_def js_div_def js_mul_def inf_of_def zero_of_def)

lemma trend_value_not_finite:
  assumes "x \<in> {PInf, NInf, NaN}"
  shows "(if js_lt (Fin 0) x then ''+'' else []) @ toFixed rt 1 x @ ''%''
           \<in> {''+Infinity%'', ''-Infinity%'', ''NaN%''}"
  using assms by (auto simp: toFixed_def Number_toString_def)

text \<open>
  Claim C10.  The trend of a column is \<open>(last - first) / first * 100\<close> with no test of the
  divisor.  For a loaded dataset and a numeric column with at least two numbers of which
  the first is zero, the trends analysis returns normally and the metric of that column
  holds an infinite or NaN percentage.
\<close>

theorem trend_divides_by_zero:
  assumes "getCSVData w = Some D" and "headers D \<noteq> []" and "rows D \<noteq> []"
    and "analysisType p = ''trends''"
    and "col \<in> set (headers D)" and "is_number (firstRowValue (rows D) col)"
    and "columnNumbers col (rows D) = z # zs" and "zs \<noteq> []" and "is_zero z"
  shows "\<exists>ins m. generateDataInsights rt w p = Inr ins \<and> m \<in> set (metrics ins) \<and>
           label m = col @ '' Trend'' \<and>
           value m \<in> {''+Infinity%'', ''-Infinity%'', ''NaN%''}"
proof -
  define nums where "nums = numericColumns (headers D) (rows D)"
  define change where "change = js_mul (js_div (js_sub (last (z # zs)) z) z) (Fin 100)"
  define m :: InsightMetric where
    "m = \<lparr>label = col @ '' Trend'',
           value = (if js_lt (Fin 0) change then ''+'' else []) @ toFixed rt 1 change @ ''%'',
           type = (if js_lt (Fin 0) change then Positive
                   else if js_lt change (Fin 0) then Warning else Neutral)\<rparr>"
  define ms where "ms = concat (map (trendMetric rt (rows D)) nums)"
  have col: "col \<in> set nums"
    using assms(5,6) by (simp add: nums_def numericColumns_def)
  have len: "length (z # zs) \<ge> 2"
    using assms(8) by (cases zs) simp_all
  have tm: "trendMetric rt (rows D) col = [m]"
    using len unfolding trendMetric_def assms(7) Let_def m_def change_def
    by (simp only: if_True list.sel)
  then have "m \<in> set (trendMetric rt (rows D) col)"
    by simp
  with col have mem: "m \<in> set ms"
    unfolding ms_def set_concat set_map by blast
  then have ne: "ms \<noteq> []"
    by (cases ms) simp_all
  have ins: "generateDataInsights rt w p = Inr (generateTrends rt (headers D) (rows D) nums)"
    using assms(1-4) by (simp add: generateDataInsights_def Let_def nums_def)
  have mets: "metrics (generateTrends rt (headers D) (rows D) nums) = ms"
    using ne by (simp add: generateTrends_def Let_def ms_def)
  have "change \<in> {PInf, NInf, NaN}"
    unfolding change_def by (rule div_by_zero_not_finite [OF assms(9)])
  then have "value m \<in> {''+Infinity%'', ''-Infinity%'', ''NaN%''}"
    using trend_value_not_finite [of change rt] by (simp add: m_def)
  moreover have "label m = col @ '' Trend''"
    by (simp add: m_def)
  ultimately show ?thesis
    using ins mets mem by blast
qed

lemma productData_trends:
  "generateDataInsights exampleRuntime (Window (Some productData))
     \<lparr>analysisType = ''trends'', column = None, limit' = None\<rparr> =
   Inr \<lparr>title = ''Data Trends'', description = ''Trend analysis across numeric columns'',
        metrics = [\<lparr>label = ''Units Trend'', value = ''+66.7%'', type = Positive\<rparr>,
                   \<lparr>label = ''Revenue Trend'', value = ''+Infinity%'', type = Positive\<rparr>],
        topPerformers = None\<rparr>"
  apply (simp add: generateDataInsights_def getCSVData_def productData_def)
  apply (simp add: column_simps value_defs)
  apply (simp add: generateTrends_def trendMetric_def column_simps value_defs)
  apply (simp add: number_defs)
  done

theorem trend_divides_by_zero_witness:
  "\<exists>ins m. generateDataInsights exampleRuntime (Window (Some productData))
          \<lparr>analysisType = ''trends'', column = None, limit' = None\<rparr> = Inr ins \<and>
        m \<in> set (metrics ins) \<and> label m = ''Revenue Trend'' \<and>
        value m \<in> {''+Infinity%'', ''-Infinity%'', ''NaN%''}"
  using trend_divides_by_zero [where D = productData and z = "Fin 0" and zs = "[Fin 150]"
      and w = "Window (Some productData)" and col = "''Revenue''" and rt = exampleRuntime
      and p = "\<lparr>analysisType = ''trends'', column = None, limit' = None\<rparr>"]
  by (simp add: getCSVData_def productData_def column_simps value_defs)

lemma successively_take: "successively P xs \<Longrightarrow> successively P (take n xs)"
  by (simp add: successively_conv_nth)

lemma comparePerformers_anti:
  assumes "0 < comparePerformers col a b"
  shows "comparePerformers col b a \<le> 0"
  using assms sign_sub_swap [of "num_of (field a col)" "num_of (field b col)"]
  by (auto simp: comparePerformers_def Let_def split: if_splits)

lemma sign_sub_ge:
  assumes "sign_of (js_sub y x) \<le> 0" and "x \<noteq> NaN" and "y \<noteq> NaN"
  shows "js_ge x y"
  using assms
  by (cases x; cases y) (auto simp: js_ge_def js_sub_def js_add_def split: if_splits)

lemma map_rank_performer:
  "map rank (map (performer rt lab col) (enumerate n xs)) = [Suc n..<Suc (n + length xs)]"
  by (induction xs arbitrary: n) (simp_all add: performer_def upt_conv_Cons del: upt_Suc)

lemma map_value_performer:
  "map value' (map (performer rt lab col) (enumerate n xs))
     = map (\<lambda>r. if nullish (field r col) then ''N/A'' else String_js rt (field r col)) xs"
  by (induction xs arbitrary: n) (simp_all add: performer_def)

lemma length_slice0_positive:
  assumes "0 < N"
  shows "real (length (slice0 (Fin N) xs)) \<le> N"
proof -
  have "length (slice0 (Fin N) xs) \<le> nat \<lfloor>N\<rfloor>"
    using assms by (simp add: slice0_def)
  then have "real (length (slice0 (Fin N) xs)) \<le> real (nat \<lfloor>N\<rfloor>)"
    by simp
  also have "\<dots> \<le> N"
    using assms by simp
  finally show ?thesis .
qed

lemma sortedPerformers_descending:
  assumes "\<forall>row \<in> set rs. \<exists>x. field row col = Num x \<and> x \<noteq> NaN" and "0 < N"
  shows "successively js_ge (map (\<lambda>r. num_of (field r col)) (sortedPerformers rs col (Fin N)))"
proof -
  let ?s = "sort_by (comparePerformers col) rs"
  have chain: "successively (\<lambda>a b. comparePerformers col a b \<le> 0) ?s"
    by (rule successively_sort_by) (rule comparePerformers_anti)
  have "js_ge (num_of (field (?s ! i) col)) (num_of (field (?s ! Suc i) col))"
    if i: "Suc i < length ?s" for i
  proof -
    from i have "?s ! i \<in> set rs" and "?s ! Suc i \<in> set rs"
      using set_sort_by [of "comparePerformers col" rs] nth_mem [of i ?s] nth_mem [of "Suc i" ?s]
      by auto
    with assms(1) obtain x y where x: "field (?s ! i) col = Num x" "x \<noteq> NaN"
      and y: "field (?s ! Suc i) col = Num y" "y \<noteq> NaN"
      by blast
    from chain i have "comparePerformers col (?s ! i) (?s ! Suc i) \<le> 0"
      by (simp add: successively_conv_nth)
    with x y have "sign_of (js_sub y x) \<le> 0"
      by (simp add: comparePerformers_def is_number_def typeof_def)
    with x y show ?thesis
      by (simp add: sign_sub_ge)
  qed
  then have "successively js_ge (map (\<lambda>r. num_of (field r col)) ?s)"
    by (simp add: successively_conv_nth)
  then show ?thesis
    using assms(2) by (simp add: sortedPerformers_def slice0_def take_map [symmetric] successively_take)
qed

text \<open>
  Claim C3, as stated: for every loaded dataset and existing target column the values of
  the top performers never increase from an entry to the next under numeric comparison.
  The comparator of the code answers 0 whenever one of the two cells is not a number, so a
  cell that is not a number stops the rows around it from being ordered: with the Revenue
  cells 0, null, 150 the list comes back in the stored order, 150 last, and its middle
  value is the text N/A.
\<close>

theorem top_performers_order_counterexample:
  "generateDataInsights exampleRuntime (Window (Some productData))
     \<lparr>analysisType = ''top_performers'', column = Some ''Revenue'', limit' = Some (Fin 3)\<rparr> =
   Inr \<lparr>title = ''Top 3 by Revenue'',
        description = ''Highest performing items based on Revenue'',
        metrics = [\<lparr>label = ''Top Value'', value = ''0'', type = Positive\<rparr>,
                   \<lparr>label = ''Items Analyzed'', value = ''3'', type = Neutral\<rparr>],
        topPerformers =
          Some [\<lparr>rank = 1, name = ''A'', value' = ''0'', details = ''Revenue: 0''\<rparr>,
                \<lparr>rank = 2, name = ''B'', value' = ''N/A'', details = ''Revenue: null''\<rparr>,
                \<lparr>rank = 3, name = ''C'', value' = ''150'', details = ''Revenue: 150''\<rparr>]\<rparr>"
  apply (simp add: generateDataInsights_def getCSVData_def productData_def)
  apply (simp add: generateTopPerformers_def columnName_def labelColumn_def sortedPerformers_def
      sort_by_def comparePerformers_def slice0_def column_simps value_defs number_defs)
  apply (simp add: performer_def enumerate_eq_zip value_defs number_defs)
  done

text \<open>
  Claim C3, amended.  For a loaded dataset, the analysis "top_performers" with a target
  column that is a (non-empty) column name and a limit \<open>N > 0\<close> returns a list of at most
  \<open>N\<close> top performers whose ranks are 1, 2, 3, ... in order; when every row holds a
  number other than NaN in the target column, the values are the string forms of numbers
  of which each is greater than or equal to the next.
\<close>

theorem top_performers_ranked:
  assumes "getCSVData w = Some D" and "headers D \<noteq> []" and "rows D \<noteq> []"
    and "analysisType p = ''top_performers''"
    and "column p = Some c" and "c \<noteq> []" and "c \<in> set (headers D)"
    and "limit' p = Some (Fin N)" and "0 < N"
  shows "\<exists>ins tp. generateDataInsights rt w p = Inr ins \<and> topPerformers ins = Some tp \<and>
           real (length tp) \<le> N \<and>
           map rank tp = [1..<Suc (length tp)] \<and>
           ((\<forall>row \<in> set (rows D). \<exists>x. field row c = Num x \<and> x \<noteq> NaN) \<longrightarrow>
            (\<exists>ns. map value' tp = map (Number_toString rt) ns \<and> successively js_ge ns))"
proof -
  define lab where "lab = labelColumn (headers D) (rows D)"
  define sorted where "sorted = sortedPerformers (rows D) c (Fin N)"
  define tp where "tp = map (performer rt lab c) (enumerate 0 sorted)"
  have truthy: "truthy (Num (Fin N))"
    using assms(9) by (simp add: truthy_def)
  have "generateDataInsights rt w p = generateTopPerformers rt (headers D) (rows D) (Some c) (Fin N)"
    using assms(1-6,8) truthy by (simp add: generateDataInsights_def Let_def)
  then obtain ins where ins: "generateDataInsights rt w p = Inr ins"
    and tps: "topPerformers ins = Some tp"
    using assms(7)
    by (simp add: generateTopPerformers_def Let_def columnName_def tp_def sorted_def lab_def)
  have len: "real (length tp) \<le> N"
    using length_slice0_positive [OF assms(9)]
    by (simp add: tp_def sorted_def sortedPerformers_def)
  have "length tp = length sorted"
    by (simp add: tp_def)
  then have ranks: "map rank tp = [1..<Suc (length tp)]"
    using map_rank_performer [of rt lab c 0 sorted] by (simp add: tp_def del: upt_Suc)
  have vals: "\<exists>ns. map value' tp = map (Number_toString rt) ns \<and> successively js_ge ns"
    if num: "\<forall>row \<in> set (rows D). \<exists>x. field row c = Num x \<and> x \<noteq> NaN"
  proof -
    have sub: "set sorted \<subseteq> set (rows D)"
      using set_take_subset [of _ "sort_by (comparePerformers c) (rows D)"]
      by (auto simp: sorted_def sortedPerformers_def slice0_def set_sort_by split: if_splits
          dest: in_set_takeD)
    have "map value' tp = map (\<lambda>r. Number_toString rt (num_of (field r c))) sorted"
      unfolding tp_def map_value_performer
    proof (rule map_cong [OF refl])
      fix r assume "r \<in> set sorted"
      with sub num obtain x where "field r c = Num x" by blast
      then show "(if nullish (field r c) then ''N/A'' else String_js rt (field r c))
                 = Number_toString rt (num_of (field r c))"
        by (simp add: nullish_def String_js_def)
    qed
    then have "map value' tp = map (Number_toString rt) (map (\<lambda>r. num_of (field r c)) sorted)"
      by (simp add: comp_def)
    moreover have "successively js_ge (map (\<lambda>r. num_of (field r c)) sorted)"
      unfolding sorted_def by (rule sortedPerformers_descending [OF num assms(9)])
    ultimately show ?thesis by blast
  qed
  show ?thesis
    using ins tps len ranks vals by blast
qed

theorem top_performers_ranked_witness:
  "\<exists>ins tp. generateDataInsights exampleRuntime (Window (Some productData))
       \<lparr>analysisType = ''top_performers'', column = Some ''Units'', limit' = Some (Fin 2)\<rparr>
         = Inr ins \<and>
       topPerformers ins = Some tp \<and> real (length tp) \<le> 2 \<and>
       map rank tp = [1..<Suc (length tp)] \<and>
       (\<exists>ns. map value' tp = map (Number_toString exampleRuntime) ns \<and> successively js_ge ns)"
  using top_performers_ranked [where w = "Window (Some productData)" and D = productData
      and rt = exampleRuntime and c = "''Units''" and N = 2
      and p = "\<lparr>analysisType = ''top_performers'', column = Some ''Units'',
                 limit' = Some (Fin 2)\<rparr>"]
  by (simp add: getCSVData_def productData_def field_def)

lemma productData_top_units:
  "generateDataInsights exampleRuntime (Window (Some productData))
     \<lparr>analysisType = ''top_performers'', column = Some ''Units'', limit' = Some (Fin 2)\<rparr> =
   Inr \<lparr>title = ''Top 2 by Units'',
        description = ''Highest performing items based on Units'',
        metrics = [\<lparr>label = ''Top Value'', value = ''7'', type = Positive\<rparr>,
                   \<lparr>label = ''Items Analyzed'', value = ''3'', type = Neutral\<rparr>],
        topPerformers =
          Some [\<lparr>rank = 1, name = ''B'', value' = ''7'', details = ''Units: 7''\<rparr>,
                \<lparr>rank = 2, name = ''C'', value' = ''5'', details = ''Units: 5''\<rparr>]\<rparr>"
  apply (simp add: generateDataInsights_def getCSVData_def productData_def)
  apply (simp add: column_simps value_defs)
  apply (simp add: generateTopPerformers_def columnName_def labelColumn_def sortedPerformers_def
      sort_by_def comparePerformers_def slice0_def column_simps value_defs number_defs)
  apply (simp add: performer_def enumerate_eq_zip value_defs number_defs)
  done

end
